theory Spec2Isabelle
  imports Main "HOL-Library.Multiset"
begin

section \<open>Values of the host language\<close>

text \<open>
  The messages of the client are JavaScript values. The model keeps the shapes the
  connection layer inspects: whether a value is an object, whether a property is truthy,
  and whether \<^verbatim>\<open>JSON.stringify\<close> raises on it (it raises a TypeError on a BigInt, at
  any depth). An object is its list of properties; the first binding of a key counts.
\<close>

datatype jsval =
    JUndefined | JNull | JBool bool | JNum int | JStr string | JBigInt int
  | JObj "(string \<times> jsval) list"

type_synonym fields = "(string \<times> jsval) list"

fun truthy :: "jsval \<Rightarrow> bool" where
  "truthy JUndefined = False"
| "truthy JNull = False"
| "truthy (JBool b) = b"
| "truthy (JNum n) = (n \<noteq> 0)"
| "truthy (JStr s) = (s \<noteq> [])"
| "truthy (JBigInt n) = (n \<noteq> 0)"
| "truthy (JObj fs) = True"

text \<open>\<^verbatim>\<open>JSON.stringify(v)\<close> returns normally.\<close>

fun stringifiable :: "jsval \<Rightarrow> bool" where
  "stringifiable (JBigInt n) = False"
| "stringifiable (JObj fs) = list_all (\<lambda>p. stringifiable (snd p)) fs"
| "stringifiable v = True"

text \<open>Property access \<^verbatim>\<open>o.k\<close>: \<^verbatim>\<open>undefined\<close> when the key is absent.\<close>

definition getprop :: "fields \<Rightarrow> string \<Rightarrow> jsval" where
  "getprop fs k = (case map_of fs k of None \<Rightarrow> JUndefined | Some v \<Rightarrow> v)"

text \<open>
  A queued message is the caller's object with two metadata properties,
  \<^verbatim>\<open>_timestamp\<close> and \<^verbatim>\<open>_retryCount\<close>. The record keeps the metadata beside the
  object's other properties: \<open>body\<close> is what the rest pattern
  \<^verbatim>\<open>const { _timestamp, _retryCount, ...message } = queuedMessage\<close> binds to \<^verbatim>\<open>message\<close>.
\<close>

record queued =
  body :: fields
  timestamp :: int
  retryCount :: nat

definition without_meta :: "fields \<Rightarrow> fields" where
  "without_meta fs = filter (\<lambda>p. fst p \<noteq> ''_timestamp'' \<and> fst p \<noteq> ''_retryCount'') fs"

definition enqueue :: "fields \<Rightarrow> int \<Rightarrow> queued" where
  "enqueue fs now = \<lparr>body = without_meta fs, timestamp = now, retryCount = 0\<rparr>"

text \<open>The object a queued message is, metadata included (what part_000 hands to the socket).\<close>

definition queued_object :: "queued \<Rightarrow> jsval" where
  "queued_object q =
     JObj (body q @ [(''_timestamp'', JNum (timestamp q)), (''_retryCount'', JNum (int (retryCount q)))])"

datatype readyState = CONNECTING | OPEN | CLOSING | CLOSED

text \<open>\<^verbatim>\<open>WebSocket.close\<close> on a socket that is closing or closed does nothing.\<close>

definition closing :: "readyState \<Rightarrow> readyState" where
  "closing r = (if r = CLOSING \<or> r = CLOSED then r else CLOSING)"

section \<open>src/websocket.js\<close>

text \<open>
  The module's file-scope variables, and three logs of what it does to its environment:
  \<open>wire\<close> holds the values given to \<^verbatim>\<open>ws.send\<close> (oldest first), \<open>closes\<close> the
  \<^verbatim>\<open>ws.close(code, reason)\<close> calls, \<open>timers\<close> the delays of the pending
  \<^verbatim>\<open>setTimeout\<close> callbacks that call \<^verbatim>\<open>initWebSocket\<close>. \<open>ws\<close> is \<open>None\<close> for
  \<^verbatim>\<open>null\<close>, else the socket's readyState. \<open>pingInterval\<close> tells whether the interval
  timer is set. \<^verbatim>\<open>Date.now()\<close> is the parameter \<open>now\<close>. Notifications, console
  output and the listeners called by the handlers are not part of the state.
\<close>

record ws_state =
  ws :: "readyState option"
  reconnectAttempts :: nat
  pingInterval :: bool
  lastPong :: int
  messageQueue :: "queued list"
  connected :: bool
  pingLatency :: int
  wire :: "jsval list"
  closes :: "(nat \<times> string) list"
  timers :: "nat list"

definition MAX_RECONNECT_ATTEMPTS :: nat where
  "MAX_RECONNECT_ATTEMPTS = 5"

definition RECONNECT_DELAY :: nat where
  "RECONNECT_DELAY = 3000"

definition PING_INTERVAL :: int where
  "PING_INTERVAL = 30000"

definition maxAge :: int where
  "maxAge = 5 * 60 * 1000"

definition attemptReconnection :: "ws_state \<Rightarrow> ws_state" where
  "attemptReconnection s =
     (let s1 = s\<lparr>reconnectAttempts := reconnectAttempts s + 1\<rparr> in
      if reconnectAttempts s1 > MAX_RECONNECT_ATTEMPTS then s1
      else s1\<lparr>timers := timers s1 @ [RECONNECT_DELAY * 2 ^ (reconnectAttempts s1 - 1)]\<rparr>)"

definition stopPingInterval :: "ws_state \<Rightarrow> ws_state" where
  "stopPingInterval s = (if pingInterval s then s\<lparr>pingInterval := False\<rparr> else s)"

text \<open>
  \<^verbatim>\<open>sendMessage(message, queueIfOffline = true)\<close>. In the \<^verbatim>\<open>try\<close> block only
  \<^verbatim>\<open>JSON.stringify\<close> can raise: \<^verbatim>\<open>ws.send\<close> of a string on an open socket does not.
\<close>

definition sendMessage :: "jsval \<Rightarrow> bool \<Rightarrow> int \<Rightarrow> ws_state \<Rightarrow> bool \<times> ws_state" where
  "sendMessage message queueIfOffline now s =
     (case message of
        JObj fs \<Rightarrow>
          if \<not> truthy (getprop fs ''type'') then (False, s)
          else if ws s \<noteq> Some OPEN then
            (let s1 = (if queueIfOffline
                       then s\<lparr>messageQueue := messageQueue s @ [enqueue fs now]\<rparr> else s);
                 s2 = (if \<not> connected s1 \<and> reconnectAttempts s1 = 0
                       then attemptReconnection s1 else s1)
             in (False, s2))
          else if stringifiable message then (True, s\<lparr>wire := wire s @ [message]\<rparr>)
          else (False, if queueIfOffline
                       then s\<lparr>messageQueue := messageQueue s @ [enqueue fs now]\<rparr> else s)
      | _ \<Rightarrow> (False, s))"

text \<open>\<^verbatim>\<open>messageQueue.splice(i, 1)\<close>.\<close>

definition splice1 :: "nat \<Rightarrow> ws_state \<Rightarrow> ws_state" where
  "splice1 i s = s\<lparr>messageQueue := take i (messageQueue s) @ drop (Suc i) (messageQueue s)\<rparr>"

text \<open>
  One turn of the loop of \<^verbatim>\<open>processMessageQueue\<close>, at index \<open>i\<close>. The loop starts at
  the last index and only ever removes the element at the current index, so \<open>i\<close> is
  always within the queue.
\<close>

definition processStep :: "int \<Rightarrow> nat \<Rightarrow> ws_state \<Rightarrow> ws_state" where
  "processStep now i s =
     (let queuedMessage = messageQueue s ! i in
      if now - timestamp queuedMessage > maxAge then splice1 i s
      else
        (let (sent, s1) = sendMessage (JObj (body queuedMessage)) False now s in
         if sent then splice1 i s1
         else
           (let bumped = queuedMessage\<lparr>retryCount := retryCount queuedMessage + 1\<rparr>;
                s2 = s1\<lparr>messageQueue := (messageQueue s1)[i := bumped]\<rparr>
            in if retryCount bumped > 3 then splice1 i s2 else s2)))"

text \<open>\<^verbatim>\<open>for (let i = messageQueue.length - 1; i >= 0; i--)\<close>: \<open>n\<close> is \<open>i + 1\<close>.\<close>

fun processLoop :: "int \<Rightarrow> nat \<Rightarrow> ws_state \<Rightarrow> ws_state" where
  "processLoop now 0 s = s"
| "processLoop now (Suc i) s = processLoop now i (processStep now i s)"

definition processMessageQueue :: "int \<Rightarrow> ws_state \<Rightarrow> ws_state" where
  "processMessageQueue now s = processLoop now (length (messageQueue s)) s"

text \<open>The \<^verbatim>\<open>ws.onclose\<close> handler, for a close event with the given code.\<close>

definition onclose :: "nat \<Rightarrow> ws_state \<Rightarrow> ws_state" where
  "onclose code s =
     (let s1 = stopPingInterval (s\<lparr>connected := False\<rparr>);
          s2 = s1\<lparr>ws := None\<rparr>
      in if code \<noteq> 1000 \<and> code \<noteq> 1001 \<and> reconnectAttempts s2 < MAX_RECONNECT_ATTEMPTS
         then attemptReconnection s2 else s2)"

text \<open>
  The callback of \<^verbatim>\<open>setInterval\<close> in \<^verbatim>\<open>startPingInterval\<close>, run at time \<open>now\<close>:
  it stores \<^verbatim>\<open>Date.now()\<close> in \<^verbatim>\<open>lastPong\<close> before it sends the ping, then compares.
\<close>

definition ping :: "int \<Rightarrow> jsval" where
  "ping now = JObj [(''type'', JStr ''ping''), (''timestamp'', JNum now)]"

definition pingTick :: "int \<Rightarrow> ws_state \<Rightarrow> ws_state" where
  "pingTick now s =
     (let s1 = (if ws s = Some OPEN
                then snd (sendMessage (ping now) True now (s\<lparr>lastPong := now\<rparr>)) else s)
      in if now - lastPong s1 > PING_INTERVAL * 2
         then (case ws s1 of
                 None \<Rightarrow> s1
               | Some r \<Rightarrow> s1\<lparr>closes := closes s1 @ [(1001, ''No pong received'')],
                              ws := Some (closing r)\<rparr>)
         else s1)"

text \<open>\<^verbatim>\<open>handlePong(message)\<close>, for a pong whose \<^verbatim>\<open>timestamp\<close> is the number \<open>t\<close>.\<close>

definition handlePong :: "int \<Rightarrow> int \<Rightarrow> ws_state \<Rightarrow> ws_state" where
  "handlePong t now s = s\<lparr>pingLatency := now - t\<rparr>"

definition disconnect :: "ws_state \<Rightarrow> ws_state" where
  "disconnect s =
     (let s1 = stopPingInterval s;
          s2 = (case ws s1 of
                  None \<Rightarrow> s1
                | Some r \<Rightarrow> s1\<lparr>closes := closes s1 @ [(1000, ''User initiated disconnect'')],
                               ws := None\<rparr>)
      in s2\<lparr>connected := False, reconnectAttempts := 0\<rparr>)"

section \<open>src/unnamed/part_000\<close>

text \<open>
  The second copy of the module. Its names carry the suffix \<open>_p0\<close>. Here
  \<^verbatim>\<open>connectionStatus\<close> is a string, and \<^verbatim>\<open>sendMessage\<close> writes the metadata into
  the caller's object, so a queued message is sent with its metadata. The state has the
  same three logs as above; the page element, notifications and the listeners called
  by the handlers are again left out.
\<close>

record p0_state =
  socket_p0 :: "readyState option"
  connectionStatus_p0 :: string
  reconnectAttempts_p0 :: nat
  pingInterval_p0 :: bool
  messageQueue_p0 :: "queued list"
  isConnected_p0 :: bool
  wire_p0 :: "jsval list"
  closes_p0 :: "(nat \<times> string) list"
  timers_p0 :: "nat list"

definition MAX_RECONNECT_ATTEMPTS_p0 :: nat where
  "MAX_RECONNECT_ATTEMPTS_p0 = 5"

text \<open>\<^verbatim>\<open>updateConnectionStatus(status, message)\<close>: the page element is not modelled.\<close>

definition updateConnectionStatus_p0 :: "string \<Rightarrow> p0_state \<Rightarrow> p0_state" where
  "updateConnectionStatus_p0 status s = s\<lparr>connectionStatus_p0 := status\<rparr>"

definition attemptReconnect_p0 :: "p0_state \<Rightarrow> p0_state" where
  "attemptReconnect_p0 s =
     (if reconnectAttempts_p0 s \<ge> MAX_RECONNECT_ATTEMPTS_p0 then s
      else
        (let s1 = s\<lparr>reconnectAttempts_p0 := reconnectAttempts_p0 s + 1\<rparr>;
             delay = min (1000 * 2 ^ reconnectAttempts_p0 s1) 30000;
             s2 = updateConnectionStatus_p0 ''connecting'' s1
         in s2\<lparr>timers_p0 := timers_p0 s2 @ [delay]\<rparr>))"

definition stopPingInterval_p0 :: "p0_state \<Rightarrow> p0_state" where
  "stopPingInterval_p0 s = (if pingInterval_p0 s then s\<lparr>pingInterval_p0 := False\<rparr> else s)"

definition sendMessage_p0 :: "jsval \<Rightarrow> bool \<Rightarrow> int \<Rightarrow> p0_state \<Rightarrow> bool \<times> p0_state" where
  "sendMessage_p0 message queueIfOffline now s =
     (case message of
        JObj fs \<Rightarrow>
          if \<not> truthy (getprop fs ''type'') then (False, s)
          else if socket_p0 s \<noteq> Some OPEN then
            (let s1 = (if queueIfOffline
                       then s\<lparr>messageQueue_p0 := messageQueue_p0 s @ [enqueue fs now]\<rparr> else s);
                 s2 = (if connectionStatus_p0 s1 \<noteq> ''connecting''
                       then attemptReconnect_p0 s1 else s1)
             in (False, s2))
          else if stringifiable message then (True, s\<lparr>wire_p0 := wire_p0 s @ [message]\<rparr>)
          else (False, if queueIfOffline
                       then s\<lparr>messageQueue_p0 := messageQueue_p0 s @ [enqueue fs now]\<rparr> else s)
      | _ \<Rightarrow> (False, s))"

text \<open>
  \<^verbatim>\<open>processMessageQueue\<close>: \<^verbatim>\<open>while (messageQueue.length > 0)\<close> with \<^verbatim>\<open>shift\<close>,
  \<^verbatim>\<open>continue\<close>, and \<^verbatim>\<open>unshift\<close> followed by \<^verbatim>\<open>break\<close>. The pass runs without
  interruption, and \<open>now\<close> stands for every \<^verbatim>\<open>Date.now()\<close> it reads. The loop ends
  because \<^verbatim>\<open>sendMessage(message, false)\<close> never adds to the queue.
\<close>

function processMessageQueue_p0 :: "int \<Rightarrow> p0_state \<Rightarrow> p0_state" where
  "processMessageQueue_p0 now s =
     (case messageQueue_p0 s of
        [] \<Rightarrow> s
      | message # others \<Rightarrow>
          (let s0 = s\<lparr>messageQueue_p0 := others\<rparr> in
           if retryCount message > 3 then processMessageQueue_p0 now s0
           else if now - timestamp message > 300000 then processMessageQueue_p0 now s0
           else
             (let r = sendMessage_p0 (queued_object message) False now s0 in
              if \<not> fst r
              then (snd r)\<lparr>messageQueue_p0 :=
                      message\<lparr>retryCount := retryCount message + 1\<rparr> # messageQueue_p0 (snd r)\<rparr>
              else processMessageQueue_p0 now (snd r))))"
  by pat_completeness auto
termination
  by (relation "measure (\<lambda>(now, s). length (messageQueue_p0 s))")
     (auto simp: sendMessage_p0_def attemptReconnect_p0_def updateConnectionStatus_p0_def
        Let_def split: jsval.splits)

declare processMessageQueue_p0.simps [simp del]

text \<open>The \<^verbatim>\<open>socket.onclose\<close> handler.\<close>

definition onclose_p0 :: "nat \<Rightarrow> p0_state \<Rightarrow> p0_state" where
  "onclose_p0 code s =
     (let s1 = s\<lparr>connectionStatus_p0 := ''disconnected'', isConnected_p0 := False\<rparr>;
          s2 = updateConnectionStatus_p0 ''disconnected'' s1;
          s3 = stopPingInterval_p0 s2
      in if code \<noteq> 1000 \<and> reconnectAttempts_p0 s3 < MAX_RECONNECT_ATTEMPTS_p0
         then attemptReconnect_p0 s3 else s3)"

definition disconnect_p0 :: "p0_state \<Rightarrow> p0_state" where
  "disconnect_p0 s =
     (let s1 = stopPingInterval_p0 s;
          s2 = (case socket_p0 s1 of
                  None \<Rightarrow> s1
                | Some r \<Rightarrow> s1\<lparr>closes_p0 := closes_p0 s1 @ [(1000, ''User initiated disconnect'')],
                               socket_p0 := None\<rparr>);
          s3 = s2\<lparr>connectionStatus_p0 := ''disconnected'', isConnected_p0 := False\<rparr>
      in updateConnectionStatus_p0 ''disconnected'' s3)"

section \<open>src/admin.js\<close>

text \<open>
  The admin page's copy, with the suffix \<open>_adm\<close>. Its attempt counter is declared
  \<^verbatim>\<open>const reconnectAttempts = 0\<close>, so it is a constant of the model, not a field.
\<close>

record adm_state =
  connectionStatus_adm :: string
  timers_adm :: "nat list"

definition reconnectAttempts_adm :: nat where
  "reconnectAttempts_adm = 0"

definition MAX_RECONNECT_ATTEMPTS_adm :: nat where
  "MAX_RECONNECT_ATTEMPTS_adm = 5"

definition attemptReconnect_adm :: "adm_state \<Rightarrow> adm_state" where
  "attemptReconnect_adm s =
     (if reconnectAttempts_adm \<ge> MAX_RECONNECT_ATTEMPTS_adm then s
      else s\<lparr>timers_adm := timers_adm s @ [3000]\<rparr>)"

definition handleWebSocketClose_adm :: "nat \<Rightarrow> adm_state \<Rightarrow> adm_state" where
  "handleWebSocketClose_adm code s =
     (let s1 = s\<lparr>connectionStatus_adm := ''disconnected''\<rparr> in
      if code \<noteq> 1000 then attemptReconnect_adm s1 else s1)"

section \<open>The event system\<close>

text \<open>
  Both copies keep, for each event name, an array of callbacks. A callback is a
  function object of the application; the table compares callbacks by identity
  (\<^verbatim>\<open>indexOf\<close>, \<^verbatim>\<open>!==\<close>), so the model names each by a number. What the function
  with a given name does when it is called is given by a \<open>behaviour\<close>: from the
  event's data and the current state it returns or raises, in both cases leaving a
  state behind. That state holds the table itself beside the application's own state
  \<open>world\<close>, since a callback may call \<^verbatim>\<open>addEventListener\<close> and
  \<^verbatim>\<open>removeEventListener\<close> while an event is being dispatched.
\<close>

datatype 'w completion = Normal 'w | Throw 'w


type_synonym callback = nat

type_synonym table = "string \<rightharpoonup> callback list"

record 'w app =
  eventListeners :: table
  world :: 'w

type_synonym ('d, 'w) behaviour = "callback \<Rightarrow> 'd \<Rightarrow> 'w app \<Rightarrow> 'w app completion"

text \<open>
  \<^verbatim>\<open>Array.prototype.forEach\<close>. The length is read once, before the first call; then
  each index below it is visited if the array still has it, and the element is read at
  that moment. \<open>arr\<close> reads the array object being walked in the current state,
  \<open>k\<close> is the index and \<open>n\<close> the number of indices still to visit. An exception
  of the function ends the walk.
\<close>

fun forEach ::
  "('s \<Rightarrow> 'a list) \<Rightarrow> ('a \<Rightarrow> 's \<Rightarrow> 's completion) \<Rightarrow> nat \<Rightarrow> nat \<Rightarrow> 's \<Rightarrow> 's completion" where
  "forEach arr f k 0 s = Normal s"
| "forEach arr f k (Suc n) s =
     (if k < length (arr s)
      then (case f (arr s ! k) s of
              Normal s' \<Rightarrow> forEach arr f (Suc k) n s'
            | Throw s' \<Rightarrow> Throw s')
      else forEach arr f (Suc k) n s)"

text \<open>\<^verbatim>\<open>try { callback(data); } catch (error) { console.error(...); }\<close>\<close>

definition guarded :: "'d \<Rightarrow> ('d \<Rightarrow> 's \<Rightarrow> 's completion) \<Rightarrow> 's \<Rightarrow> 's completion" where
  "guarded data callback s =
     (case callback data s of Normal s' \<Rightarrow> Normal s' | Throw s' \<Rightarrow> Normal s')"


subsection \<open>websocket.js: a Map of arrays\<close>




subsection \<open>part_000: a plain object of arrays\<close>

text \<open>
  Here the table is an object literal, so \<^verbatim>\<open>eventListeners[event]\<close> also finds what
  the object inherits from \<^verbatim>\<open>Object.prototype\<close>: for these names the value is a
  function (the prototype itself for \<^verbatim>\<open>__proto__\<close>), truthy and without
  \<^verbatim>\<open>push\<close>, \<^verbatim>\<open>filter\<close> or \<^verbatim>\<open>forEach\<close>, and the call raises a TypeError. The
  map holds the object's own properties.
\<close>

definition object_prototype_keys :: "string list" where
  "object_prototype_keys =
     [''constructor'', ''hasOwnProperty'', ''isPrototypeOf'', ''propertyIsEnumerable'',
      ''toLocaleString'', ''toString'', ''valueOf'', ''__proto__'', ''__defineGetter__'',
      ''__defineSetter__'', ''__lookupGetter__'', ''__lookupSetter__'']"

datatype lookup = Undefined | Array "callback list" | Inherited

definition lookup_p0 :: "table \<Rightarrow> string \<Rightarrow> lookup" where
  "lookup_p0 T event =
     (case T event of
        Some cs \<Rightarrow> Array cs
      | None \<Rightarrow> if event \<in> set object_prototype_keys then Inherited else Undefined)"

text \<open>The table as the module declares it.\<close>

definition eventListeners_p0 :: table where
  "eventListeners_p0 =
     [''onopen'' \<mapsto> [], ''onclose'' \<mapsto> [], ''onerror'' \<mapsto> [], ''onmessage'' \<mapsto> []]"

definition addEventListener_p0 :: "table \<Rightarrow> string \<Rightarrow> callback \<Rightarrow> table completion" where
  "addEventListener_p0 T event callback =
     (case lookup_p0 T event of
        Undefined \<Rightarrow> Normal (T(event \<mapsto> [callback]))
      | Array cs \<Rightarrow> Normal (T(event \<mapsto> cs @ [callback]))
      | Inherited \<Rightarrow> Throw T)"

text \<open>\<^verbatim>\<open>filter\<close> makes a new array; the one it was called on stays as it was.\<close>

definition removeEventListener_p0 :: "table \<Rightarrow> string \<Rightarrow> callback \<Rightarrow> table completion" where
  "removeEventListener_p0 T event callback =
     (case lookup_p0 T event of
        Undefined \<Rightarrow> Normal T
      | Array cs \<Rightarrow> Normal (T(event \<mapsto> filter (\<lambda>cb. cb \<noteq> callback) cs))
      | Inherited \<Rightarrow> Throw T)"

text \<open>
  The array \<^verbatim>\<open>triggerEvent\<close> walks is the one the table held when the walk began.
  During the walk \<^verbatim>\<open>addEventListener\<close> can only add to it beyond the length
  \<^verbatim>\<open>forEach\<close> has read, and \<^verbatim>\<open>removeEventListener\<close> puts a new array into the
  table: the elements the walk visits are those of the beginning.
\<close>

definition triggerEvent_p0 :: "('d, 'w) behaviour \<Rightarrow> string \<Rightarrow> 'd \<Rightarrow> 'w app \<Rightarrow> 'w app completion" where
  "triggerEvent_p0 does event data s =
     (case lookup_p0 (eventListeners s) event of
        Undefined \<Rightarrow> Normal s
      | Array cs \<Rightarrow> forEach (\<lambda>s. cs) (\<lambda>callback. guarded data (does callback)) 0 (length cs) s
      | Inherited \<Rightarrow> Throw s)"





section \<open>Notions used by the properties\<close>

text \<open>
  The inputs \<^verbatim>\<open>sendMessage\<close> rejects in its first two tests: a value that is not an
  object, or an object whose \<^verbatim>\<open>type\<close> is absent or falsy.
\<close>

definition malformed :: "jsval \<Rightarrow> bool" where
  "malformed message =
     (case message of JObj fs \<Rightarrow> \<not> truthy (getprop fs ''type'') | _ \<Rightarrow> True)"

fun fields_of :: "jsval \<Rightarrow> fields" where
  "fields_of (JObj fs) = fs"
| "fields_of v = []"

text \<open>
  The module as loaded (\<open>idle\<close>), and after \<^verbatim>\<open>onopen\<close> has run on a fresh socket with
  nothing queued (\<open>opened\<close>, the hello message left out of the log).
\<close>

definition idle :: ws_state where
  "idle = \<lparr>ws = None, reconnectAttempts = 0, pingInterval = False, lastPong = 0,
            messageQueue = [], connected = False, pingLatency = 0,
            wire = [], closes = [], timers = []\<rparr>"

definition opened :: ws_state where
  "opened = idle\<lparr>ws := Some OPEN, connected := True, pingInterval := True\<rparr>"

definition idle_p0 :: p0_state where
  "idle_p0 = \<lparr>socket_p0 = None, connectionStatus_p0 = ''disconnected'',
               reconnectAttempts_p0 = 0, pingInterval_p0 = False, messageQueue_p0 = [],
               isConnected_p0 = False, wire_p0 = [], closes_p0 = [], timers_p0 = []\<rparr>"

definition opened_p0 :: p0_state where
  "opened_p0 = idle_p0\<lparr>socket_p0 := Some OPEN, connectionStatus_p0 := ''connected'',
                       isConnected_p0 := True, pingInterval_p0 := True\<rparr>"

definition chat :: jsval where
  "chat = JObj [(''type'', JStr ''chat''), (''text'', JStr ''hi'')]"

definition mark :: jsval where
  "mark = JObj [(''type'', JStr ''mark''), (''number'', JNum 7)]"

text \<open>A message with a BigInt in it: \<^verbatim>\<open>{ type: 'payment', amount: 10n }\<close>.\<close>

definition payment :: jsval where
  "payment = JObj [(''type'', JStr ''payment''), (''amount'', JBigInt 10)]"

text \<open>
  What decides a call \<^verbatim>\<open>sendMessage(m, false)\<close>: the value is handed to the socket
  exactly when the socket is open, the value passes the two validity tests and
  \<^verbatim>\<open>JSON.stringify\<close> does not raise.
\<close>

definition deliverable :: "readyState option \<Rightarrow> jsval \<Rightarrow> bool" where
  "deliverable sock m = (sock = Some OPEN \<and> \<not> malformed m \<and> stringifiable m)"

text \<open>A queued message after one more failed attempt.\<close>

definition retried :: "queued \<Rightarrow> queued" where
  "retried m = m\<lparr>retryCount := retryCount m + 1\<rparr>"

text \<open>The age test of websocket.js, and the two tests part_000 makes before it sends.\<close>

definition expired :: "int \<Rightarrow> queued \<Rightarrow> bool" where
  "expired now m = (now - timestamp m > maxAge)"

definition dropped_p0 :: "int \<Rightarrow> queued \<Rightarrow> bool" where
  "dropped_p0 now m = (retryCount m > 3 \<or> now - timestamp m > 300000)"

text \<open>
  The messages websocket.js keeps after a pass: not too old, not sent, and with a
  retry count that is at most 3 after the increment.
\<close>

definition kept :: "int \<Rightarrow> readyState option \<Rightarrow> queued \<Rightarrow> bool" where
  "kept now sock m =
     (\<not> expired now m \<and> \<not> deliverable sock (JObj (body m)) \<and> \<not> retryCount m + 1 > 3)"

text \<open>The messages a pass of part_000 gets past: dropped unsent, or sent.\<close>

definition passed_p0 :: "int \<Rightarrow> readyState option \<Rightarrow> queued \<Rightarrow> bool" where
  "passed_p0 now sock m = (dropped_p0 now m \<or> deliverable sock (queued_object m))"

text \<open>
  What part_000 leaves of the part of the queue it did not get past: the head failed,
  so it is back in front with one more retry.
\<close>

fun requeued :: "queued list \<Rightarrow> queued list" where
  "requeued [] = []"
| "requeued (m # ms) = retried m # ms"

section \<open>Theorems\<close>

text \<open>The \<^verbatim>\<open>type\<close> of a message is the same on the queue as in the call.\<close>

lemma getprop_without_meta_type: "getprop (without_meta fs) ''type'' = getprop fs ''type''"
  by (induction fs) (auto simp: getprop_def without_meta_def)

subsection \<open>C1: the drain pass\<close>

lemma sendMessage_no_queue:
  "fst (sendMessage m False now s) = deliverable (ws s) m"
  "messageQueue (snd (sendMessage m False now s)) = messageQueue s"
  "wire (snd (sendMessage m False now s)) = (if deliverable (ws s) m then wire s @ [m] else wire s)"
  "ws (snd (sendMessage m False now s)) = ws s"
  by (cases m; simp add: sendMessage_def deliverable_def malformed_def attemptReconnection_def Let_def)+

lemma sendMessage_p0_no_queue:
  "fst (sendMessage_p0 m False now t) = deliverable (socket_p0 t) m"
  "messageQueue_p0 (snd (sendMessage_p0 m False now t)) = messageQueue_p0 t"
  "wire_p0 (snd (sendMessage_p0 m False now t)) =
     (if deliverable (socket_p0 t) m then wire_p0 t @ [m] else wire_p0 t)"
  "socket_p0 (snd (sendMessage_p0 m False now t)) = socket_p0 t"
  by (cases m; simp add: sendMessage_p0_def deliverable_def malformed_def attemptReconnect_p0_def
        updateConnectionStatus_p0_def Let_def)+

text \<open>One turn of the loop of websocket.js acts on the element at its index only.\<close>

lemma processStep_effect:
  assumes "i < length (messageQueue s)"
  shows "messageQueue (processStep now i s) =
           take i (messageQueue s) @
           map retried (filter (kept now (ws s)) [messageQueue s ! i]) @
           drop (Suc i) (messageQueue s)"
    and "wire (processStep now i s) =
           wire s @ map (\<lambda>m. JObj (body m))
             (filter (\<lambda>m. \<not> expired now m \<and> deliverable (ws s) (JObj (body m))) [messageQueue s ! i])"
    and "ws (processStep now i s) = ws s"
  using assms
  by (simp_all add: processStep_def splice1_def Let_def case_prod_beta sendMessage_no_queue
        kept_def expired_def retried_def upd_conv_take_nth_drop)

text \<open>
  The loop from index \<open>n - 1\<close> down to 0 has dealt with the first \<open>n\<close> elements,
  the last of them first.
\<close>

lemma processLoop_effect:
  "n \<le> length (messageQueue s) \<Longrightarrow>
     messageQueue (processLoop now n s) =
       map retried (filter (kept now (ws s)) (take n (messageQueue s))) @ drop n (messageQueue s) \<and>
     wire (processLoop now n s) =
       wire s @ rev (map (\<lambda>m. JObj (body m))
         (filter (\<lambda>m. \<not> expired now m \<and> deliverable (ws s) (JObj (body m)))
            (take n (messageQueue s)))) \<and>
     ws (processLoop now n s) = ws s"
proof (induction n arbitrary: s)
  case 0
  then show ?case by simp
next
  case (Suc i)
  let ?q = "messageQueue s" and ?s' = "processStep now i s"
  from Suc.prems have i: "i < length ?q"
    by simp
  note step = processStep_effect [OF i, of now]
  have len: "i \<le> length (messageQueue ?s')"
    using i by (simp add: step(1))
  have tk: "take i (messageQueue ?s') = take i ?q"
    using i by (simp add: step(1))
  have dr: "drop i (messageQueue ?s') =
              map retried (filter (kept now (ws s)) [?q ! i]) @ drop (Suc i) ?q"
    using i by (simp add: step(1))
  have sp: "take (Suc i) ?q = take i ?q @ [?q ! i]"
    using i by (rule take_Suc_conv_app_nth)
  have IH: "messageQueue (processLoop now i ?s') =
              map retried (filter (kept now (ws s)) (take i ?q)) @
              map retried (filter (kept now (ws s)) [?q ! i]) @ drop (Suc i) ?q"
    and IHw: "wire (processLoop now i ?s') =
              wire ?s' @ rev (map (\<lambda>m. JObj (body m))
                (filter (\<lambda>m. \<not> expired now m \<and> deliverable (ws s) (JObj (body m))) (take i ?q)))"
    and IHs: "ws (processLoop now i ?s') = ws s"
    using Suc.IH [OF len] unfolding tk dr step(3) by simp_all
  show ?case
    unfolding processLoop.simps IH IHw IHs sp step(2) by simp
qed

text \<open>
  A pass of part_000 works through the longest prefix of messages it can get past,
  sends those of them it does not drop, in queue order, and stops at the first message
  whose send fails.
\<close>

lemma processMessageQueue_p0_effect:
  "messageQueue_p0 t = q \<Longrightarrow>
     wire_p0 (processMessageQueue_p0 now t) =
       wire_p0 t @ map queued_object
         (filter (\<lambda>m. \<not> dropped_p0 now m) (takeWhile (passed_p0 now (socket_p0 t)) q)) \<and>
     messageQueue_p0 (processMessageQueue_p0 now t) =
       requeued (dropWhile (passed_p0 now (socket_p0 t)) q) \<and>
     socket_p0 (processMessageQueue_p0 now t) = socket_p0 t"
proof (induction q arbitrary: t)
  case Nil
  then show ?case
    by (subst (1 2 3) processMessageQueue_p0.simps) simp
next
  case (Cons m ms)
  let ?t0 = "t\<lparr>messageQueue_p0 := ms\<rparr>"
  let ?r = "sendMessage_p0 (queued_object m) False now ?t0"
  have q0: "messageQueue_p0 ?t0 = ms" and k0: "socket_p0 ?t0 = socket_p0 t"
    and w0: "wire_p0 ?t0 = wire_p0 t"
    by simp_all
  show ?case
  proof (cases "dropped_p0 now m")
    case True
    then have eq: "processMessageQueue_p0 now t = processMessageQueue_p0 now ?t0"
      using Cons.prems
      by (subst processMessageQueue_p0.simps) (auto simp: dropped_p0_def Let_def)
    show ?thesis
      using Cons.IH [OF q0] True unfolding eq k0 w0
      by (simp add: passed_p0_def)
  next
    case False
    note live = this
    show ?thesis
    proof (cases "deliverable (socket_p0 t) (queued_object m)")
      case True
      have q1: "messageQueue_p0 (snd ?r) = ms" and k1: "socket_p0 (snd ?r) = socket_p0 t"
        and w1: "wire_p0 (snd ?r) = wire_p0 t @ [queued_object m]"
        using True by (simp_all add: sendMessage_p0_no_queue)
      have eq: "processMessageQueue_p0 now t = processMessageQueue_p0 now (snd ?r)"
        using Cons.prems live True
        by (subst processMessageQueue_p0.simps)
           (simp add: dropped_p0_def Let_def sendMessage_p0_no_queue)
      show ?thesis
        using Cons.IH [OF q1] live True unfolding eq k1 w1
        by (simp add: passed_p0_def)
    next
      case False
      have eq: "processMessageQueue_p0 now t =
                  (snd ?r)\<lparr>messageQueue_p0 := retried m # messageQueue_p0 (snd ?r)\<rparr>"
        using Cons.prems live False
        by (subst processMessageQueue_p0.simps)
           (simp add: dropped_p0_def Let_def sendMessage_p0_no_queue retried_def)
      show ?thesis
        using live False unfolding eq
        by (simp add: passed_p0_def sendMessage_p0_no_queue)
    qed
  qed
qed

lemma processMessageQueue_effect:
  "messageQueue (processMessageQueue now s) =
     map retried (filter (kept now (ws s)) (messageQueue s)) \<and>
   wire (processMessageQueue now s) =
     wire s @ rev (map (\<lambda>m. JObj (body m))
       (filter (\<lambda>m. \<not> expired now m \<and> deliverable (ws s) (JObj (body m))) (messageQueue s)))"
  using processLoop_effect [OF le_refl, of now s]
  by (simp add: processMessageQueue_def)

text \<open>
  C1, as the code has it. In part_000 the pass takes the head of the queue first. A
  head whose retry count already exceeds 3, or that is older than 5 minutes, is dropped
  without being sent; a head whose send succeeds is removed and the pass goes on; a
  head whose send fails is put back in front with its retry count incremented, and the
  pass stops there, whatever the new count. So the transport sees, in queue order, the
  messages of a prefix of the queue that were not dropped, and what remains queued is
  the rest of the queue behind that prefix: nothing is sent ahead of a message that
  stays queued. In websocket.js the pass deals with every queued message once: a
  message older than 5 minutes is removed unsent, a message whose send succeeds is
  removed, a message whose send fails gets its retry count incremented and is removed
  if the count then exceeds 3; the pass does not stop at a failure, and the messages
  it keeps stay in their order. The theorem says which messages websocket.js sends in
  a pass, not in which order.
\<close>

theorem drain_pass:
  "wire_p0 (processMessageQueue_p0 now t) =
     wire_p0 t @ map queued_object
       (filter (\<lambda>m. \<not> dropped_p0 now m)
          (takeWhile (passed_p0 now (socket_p0 t)) (messageQueue_p0 t))) \<and>
   messageQueue_p0 (processMessageQueue_p0 now t) =
     requeued (dropWhile (passed_p0 now (socket_p0 t)) (messageQueue_p0 t)) \<and>
   messageQueue (processMessageQueue now s) =
     map retried (filter (kept now (ws s)) (messageQueue s)) \<and>
   mset (wire (processMessageQueue now s)) =
     mset (wire s) + mset (map (\<lambda>m. JObj (body m))
       (filter (\<lambda>m. \<not> expired now m \<and> deliverable (ws s) (JObj (body m))) (messageQueue s)))"
  using processMessageQueue_effect [of now s] processMessageQueue_p0_effect [OF refl, of now t]
  by simp

text \<open>
  The theorem at two passes on an open socket, at time 10. part_000, with the chat
  message queued at time 1 and the mark message at time 2: both are sent, chat first.
  websocket.js, with the payment message (which cannot be serialized) queued before
  the chat message: the chat message is sent and the payment message is kept with its
  retry count at 1.
\<close>

theorem drain_pass_witness:
  "wire_p0 (processMessageQueue_p0 10
      (opened_p0\<lparr>messageQueue_p0 := [enqueue (fields_of chat) 1, enqueue (fields_of mark) 2]\<rparr>)) =
     [queued_object (enqueue (fields_of chat) 1), queued_object (enqueue (fields_of mark) 2)] \<and>
   messageQueue_p0 (processMessageQueue_p0 10
      (opened_p0\<lparr>messageQueue_p0 := [enqueue (fields_of chat) 1, enqueue (fields_of mark) 2]\<rparr>)) = [] \<and>
   messageQueue (processMessageQueue 10
      (opened\<lparr>messageQueue := [enqueue (fields_of payment) 1, enqueue (fields_of chat) 2]\<rparr>)) =
     [retried (enqueue (fields_of payment) 1)] \<and>
   mset (wire (processMessageQueue 10
      (opened\<lparr>messageQueue := [enqueue (fields_of payment) 1, enqueue (fields_of chat) 2]\<rparr>))) =
     {#chat#}"
  using drain_pass [of 10
      "opened_p0\<lparr>messageQueue_p0 := [enqueue (fields_of chat) 1, enqueue (fields_of mark) 2]\<rparr>"
      "opened\<lparr>messageQueue := [enqueue (fields_of payment) 1, enqueue (fields_of chat) 2]\<rparr>"]
  by (simp add: opened_p0_def idle_p0_def opened_def idle_def chat_def mark_def payment_def
        enqueue_def without_meta_def queued_object_def passed_p0_def dropped_p0_def kept_def
        expired_def maxAge_def deliverable_def malformed_def getprop_def)

text \<open>
  C1 as stated fails, on an open socket at time 10. In websocket.js, with the payment
  message (which cannot be serialized) queued before the chat message, the chat
  message is sent although the earlier payment message stays queued with a retry count
  of 1; and with the chat message queued before the mark message, the transport sees
  the mark message first. In part_000, with the payment message at the head on its
  fourth failure, it is put back with a retry count of 4 and the pass stops: the chat
  message behind it is not sent.
\<close>

theorem drain_pass_not_as_stated:
  "wire (processMessageQueue 10
      (opened\<lparr>messageQueue := [enqueue (fields_of payment) 1, enqueue (fields_of chat) 2]\<rparr>)) =
     [chat] \<and>
   messageQueue (processMessageQueue 10
      (opened\<lparr>messageQueue := [enqueue (fields_of payment) 1, enqueue (fields_of chat) 2]\<rparr>)) =
     [\<lparr>body = fields_of payment, timestamp = 1, retryCount = 1\<rparr>] \<and>
   wire (processMessageQueue 10
      (opened\<lparr>messageQueue := [enqueue (fields_of chat) 1, enqueue (fields_of mark) 2]\<rparr>)) =
     [mark, chat] \<and>
   wire_p0 (processMessageQueue_p0 10
      (opened_p0\<lparr>messageQueue_p0 :=
         [\<lparr>body = fields_of payment, timestamp = 1, retryCount = 3\<rparr>,
          enqueue (fields_of chat) 2]\<rparr>)) = [] \<and>
   messageQueue_p0 (processMessageQueue_p0 10
      (opened_p0\<lparr>messageQueue_p0 :=
         [\<lparr>body = fields_of payment, timestamp = 1, retryCount = 3\<rparr>,
          enqueue (fields_of chat) 2]\<rparr>)) =
     [\<lparr>body = fields_of payment, timestamp = 1, retryCount = 4\<rparr>, enqueue (fields_of chat) 2]"
proof -
  let ?s1 = "opened\<lparr>messageQueue := [enqueue (fields_of payment) 1, enqueue (fields_of chat) 2]\<rparr>"
  let ?s2 = "opened\<lparr>messageQueue := [enqueue (fields_of chat) 1, enqueue (fields_of mark) 2]\<rparr>"
  let ?t = "opened_p0\<lparr>messageQueue_p0 :=
              [\<lparr>body = fields_of payment, timestamp = 1, retryCount = 3\<rparr>,
               enqueue (fields_of chat) 2]\<rparr>"
  note defs = opened_p0_def idle_p0_def opened_def idle_def chat_def mark_def payment_def
    enqueue_def without_meta_def queued_object_def passed_p0_def dropped_p0_def kept_def
    expired_def maxAge_def deliverable_def malformed_def getprop_def retried_def
  from processMessageQueue_effect [of 10 ?s1]
  have a: "wire (processMessageQueue 10 ?s1) = [chat]"
    and b: "messageQueue (processMessageQueue 10 ?s1) =
              [\<lparr>body = fields_of payment, timestamp = 1, retryCount = 1\<rparr>]"
    by (simp_all add: defs)
  from processMessageQueue_effect [of 10 ?s2]
  have c: "wire (processMessageQueue 10 ?s2) = [mark, chat]"
    by (simp add: defs)
  from processMessageQueue_p0_effect [OF refl, of 10 ?t]
  have d: "wire_p0 (processMessageQueue_p0 10 ?t) = []"
    and e: "messageQueue_p0 (processMessageQueue_p0 10 ?t) =
              [\<lparr>body = fields_of payment, timestamp = 1, retryCount = 4\<rparr>,
               enqueue (fields_of chat) 2]"
    by (simp_all add: defs)
  from a b c d e show ?thesis by blast
qed

subsection \<open>C2: the delays of consecutive reconnections\<close>

text \<open>
  The close handlers run on a list of close codes, one closure after the other, with
  no successful connection in between.
\<close>

lemma fold_onclose_p0:
  "\<forall>c \<in> set codes. c \<noteq> 1000 \<Longrightarrow> reconnectAttempts_p0 t + length codes \<le> 5 \<Longrightarrow>
     timers_p0 (fold onclose_p0 codes t) =
       timers_p0 t @ map (\<lambda>n. min (1000 * 2 ^ n) 30000)
         [reconnectAttempts_p0 t + 1 ..< reconnectAttempts_p0 t + length codes + 1]"
proof (induction codes arbitrary: t)
  case Nil
  then show ?case by simp
next
  case (Cons c cs)
  let ?t = "onclose_p0 c t"
  from Cons.prems have c: "c \<noteq> 1000" and a: "reconnectAttempts_p0 t < 5"
    by auto
  have step: "timers_p0 ?t = timers_p0 t @ [min (1000 * 2 ^ (reconnectAttempts_p0 t + 1)) 30000]"
    and att: "reconnectAttempts_p0 ?t = reconnectAttempts_p0 t + 1"
    using c a
    by (simp_all add: onclose_p0_def attemptReconnect_p0_def stopPingInterval_p0_def
          updateConnectionStatus_p0_def Let_def MAX_RECONNECT_ATTEMPTS_p0_def)
  have "timers_p0 (fold onclose_p0 cs ?t) =
          timers_p0 ?t @ map (\<lambda>n. min (1000 * 2 ^ n) 30000)
            [reconnectAttempts_p0 ?t + 1 ..< reconnectAttempts_p0 ?t + length cs + 1]"
    using Cons.IH [of ?t] Cons.prems att by (simp del: upt_Suc)
  then show ?case
    using step att by (simp add: upt_conv_Cons del: upt_Suc)
qed

lemma fold_onclose:
  "\<forall>c \<in> set codes. c \<noteq> 1000 \<and> c \<noteq> 1001 \<Longrightarrow> reconnectAttempts s + length codes \<le> 5 \<Longrightarrow>
     timers (fold onclose codes s) =
       timers s @ map (\<lambda>n. 3000 * 2 ^ (n - 1))
         [reconnectAttempts s + 1 ..< reconnectAttempts s + length codes + 1]"
proof (induction codes arbitrary: s)
  case Nil
  then show ?case by simp
next
  case (Cons c cs)
  let ?s = "onclose c s"
  from Cons.prems have c: "c \<noteq> 1000" "c \<noteq> 1001" and a: "reconnectAttempts s < 5"
    by auto
  have step: "timers ?s = timers s @ [3000 * 2 ^ reconnectAttempts s]"
    and att: "reconnectAttempts ?s = reconnectAttempts s + 1"
    using c a
    by (simp_all add: onclose_def attemptReconnection_def stopPingInterval_def Let_def
          MAX_RECONNECT_ATTEMPTS_def RECONNECT_DELAY_def)
  have "timers (fold onclose cs ?s) =
          timers ?s @ map (\<lambda>n. 3000 * 2 ^ (n - 1))
            [reconnectAttempts ?s + 1 ..< reconnectAttempts ?s + length cs + 1]"
    using Cons.IH [of ?s] Cons.prems att by (simp del: upt_Suc)
  then show ?case
    using step att by (simp add: upt_conv_Cons del: upt_Suc)
qed

lemma sorted_map_upt_mono:
  fixes f :: "nat \<Rightarrow> nat"
  assumes "\<And>m n. m \<le> n \<Longrightarrow> f m \<le> f n"
  shows "sorted (map f [i ..< j])"
  unfolding sorted_map
  by (rule sorted_wrt_mono_rel [OF _ sorted_upt]) (simp add: assms)

text \<open>
  C2, as the code has it. Starting with the attempt counter at 0, up to five
  consecutive closures with reconnecting codes schedule, at the n-th closure
  (n = 1, 2, ...): in part_000 a delay of min(1000 * 2^n, 30000) ms, so the delays
  never decrease and never exceed 30 seconds; in websocket.js a delay of
  3000 * 2^(n - 1) ms, with no cap, so the delays never decrease.
\<close>

theorem consecutive_closure_delays:
  "reconnectAttempts_p0 t = 0 \<Longrightarrow> \<forall>c \<in> set codes. c \<noteq> 1000 \<Longrightarrow>
   reconnectAttempts s = 0 \<Longrightarrow> \<forall>c \<in> set codes'. c \<noteq> 1000 \<and> c \<noteq> 1001 \<Longrightarrow>
   length codes \<le> 5 \<Longrightarrow> length codes' \<le> 5 \<Longrightarrow>
     timers_p0 (fold onclose_p0 codes t) =
       timers_p0 t @ map (\<lambda>n. min (1000 * 2 ^ n) 30000) [1 ..< length codes + 1] \<and>
     sorted (map (\<lambda>n. min (1000 * 2 ^ n) (30000::nat)) [1 ..< length codes + 1]) \<and>
     (\<forall>d \<in> set (map (\<lambda>n. min (1000 * 2 ^ n) (30000::nat)) [1 ..< length codes + 1]). d \<le> 30000) \<and>
     timers (fold onclose codes' s) =
       timers s @ map (\<lambda>n. 3000 * 2 ^ (n - 1)) [1 ..< length codes' + 1] \<and>
     sorted (map (\<lambda>n. 3000 * 2 ^ (n - 1) :: nat) [1 ..< length codes' + 1])"
proof -
  assume t0: "reconnectAttempts_p0 t = 0" and ct: "\<forall>c \<in> set codes. c \<noteq> 1000"
    and s0: "reconnectAttempts s = 0" and cs: "\<forall>c \<in> set codes'. c \<noteq> 1000 \<and> c \<noteq> 1001"
    and lt: "length codes \<le> 5" and ls: "length codes' \<le> 5"
  have "timers_p0 (fold onclose_p0 codes t) =
          timers_p0 t @ map (\<lambda>n. min (1000 * 2 ^ n) 30000) [1 ..< length codes + 1]"
    using fold_onclose_p0 [OF ct] t0 lt by simp
  moreover have "sorted (map (\<lambda>n. min (1000 * 2 ^ n) (30000::nat)) [1 ..< length codes + 1])"
    by (rule sorted_map_upt_mono) (simp add: min_le_iff_disj)
  moreover have "\<forall>d \<in> set (map (\<lambda>n. min (1000 * 2 ^ n) (30000::nat)) [1 ..< length codes + 1]).
                   d \<le> 30000"
    by simp
  moreover have "timers (fold onclose codes' s) =
          timers s @ map (\<lambda>n. 3000 * 2 ^ (n - 1)) [1 ..< length codes' + 1]"
    using fold_onclose [OF cs] s0 ls by simp
  moreover have "sorted (map (\<lambda>n. 3000 * 2 ^ (n - 1) :: nat) [1 ..< length codes' + 1])"
    by (rule sorted_map_upt_mono) (simp add: diff_le_mono)
  ultimately show ?thesis by blast
qed

text \<open>
  The theorem at five abnormal closures (code 1006) of a freshly opened connection:
  2, 4, 8, 16 and 30 seconds in part_000; 3, 6, 12, 24 and 48 seconds in websocket.js.
\<close>

theorem consecutive_closure_delays_witness:
  "timers_p0 (fold onclose_p0 [1006, 1006, 1006, 1006, 1006] opened_p0) =
     [2000, 4000, 8000, 16000, 30000] \<and>
   timers (fold onclose [1006, 1006, 1006, 1006, 1006] opened) =
     [3000, 6000, 12000, 24000, 48000]"
proof -
  have t0: "reconnectAttempts_p0 opened_p0 = 0" and s0: "reconnectAttempts opened = 0"
    by (simp_all add: opened_p0_def idle_p0_def opened_def idle_def)
  have ct: "\<forall>c \<in> set [1006, 1006, 1006, 1006, 1006::nat]. c \<noteq> 1000"
    and cs: "\<forall>c \<in> set [1006, 1006, 1006, 1006, 1006::nat]. c \<noteq> 1000 \<and> c \<noteq> 1001"
    by simp_all
  have l: "length [1006, 1006, 1006, 1006, 1006::nat] \<le> 5"
    by simp
  have u: "[1 ..< 6] = [1, 2, 3, 4, 5::nat]"
    by (simp add: upt_rec)
  from consecutive_closure_delays [OF t0 ct s0 cs l l] u
  show ?thesis by (simp add: opened_p0_def idle_p0_def opened_def idle_def)
qed

text \<open>
  C2 as stated fails in websocket.js: five abnormal closures in a row of a freshly
  opened connection schedule reconnects 3, 6, 12, 24 and 48 seconds ahead, the last one
  beyond the cap of 30 seconds.
\<close>

theorem fifth_delay_exceeds_cap:
  "timers (fold onclose [1006, 1006, 1006, 1006, 1006] opened) =
     [3000, 6000, 12000, 24000, 48000] \<and>
   \<not> (\<forall>d \<in> set (timers (fold onclose [1006, 1006, 1006, 1006, 1006] opened)). d \<le> 30000)"
  by (simp add: onclose_def attemptReconnection_def stopPingInterval_def Let_def opened_def
        idle_def MAX_RECONNECT_ATTEMPTS_def RECONNECT_DELAY_def)

subsection \<open>C3: the ceiling on reconnection attempts\<close>

text \<open>
  The other two copies count their attempts: at the ceiling their close handlers
  schedule nothing more.
\<close>

lemma onclose_at_ceiling:
  "reconnectAttempts s = 5 \<Longrightarrow> timers (onclose code s) = timers s"
  "reconnectAttempts_p0 t = 5 \<Longrightarrow> timers_p0 (onclose_p0 code t) = timers_p0 t"
  by (simp_all add: onclose_def onclose_p0_def stopPingInterval_def stopPingInterval_p0_def
        updateConnectionStatus_p0_def MAX_RECONNECT_ATTEMPTS_def MAX_RECONNECT_ATTEMPTS_p0_def
        Let_def)

lemma attemptReconnect_adm_always:
  "attemptReconnect_adm s = s\<lparr>timers_adm := timers_adm s @ [3000]\<rparr>"
  by (simp add: attemptReconnect_adm_def reconnectAttempts_adm_def MAX_RECONNECT_ATTEMPTS_adm_def)

text \<open>
  C3 does not hold in admin.js. Its counter is the constant 0, nothing increments it,
  and the test \<^verbatim>\<open>reconnectAttempts >= MAX_RECONNECT_ATTEMPTS\<close> is never true: every
  closure with a code other than 1000 schedules one more reconnect after 3000 ms, however
  many came before.
\<close>

theorem admin_reconnects_without_ceiling:
  "\<forall>c \<in> set codes. c \<noteq> 1000 \<Longrightarrow>
     timers_adm (fold handleWebSocketClose_adm codes s) =
       timers_adm s @ replicate (length codes) 3000"
proof (induction codes arbitrary: s)
  case Nil
  then show ?case by simp
next
  case (Cons c cs)
  have "timers_adm (fold handleWebSocketClose_adm cs (handleWebSocketClose_adm c s)) =
          timers_adm (handleWebSocketClose_adm c s) @ replicate (length cs) 3000"
    using Cons.IH Cons.prems by simp
  moreover have "timers_adm (handleWebSocketClose_adm c s) = timers_adm s @ [3000]"
    using Cons.prems by (simp add: handleWebSocketClose_adm_def attemptReconnect_adm_always)
  ultimately show ?case
    by (simp add: replicate_append_same)
qed

text \<open>
  The theorem at six abnormal closures in a row: the sixth schedules a reconnect like
  the five before it.
\<close>

theorem admin_reconnects_without_ceiling_witness:
  "timers_adm (fold handleWebSocketClose_adm [1006, 1006, 1006, 1006, 1006, 1006]
     \<lparr>connectionStatus_adm = ''connected'', timers_adm = []\<rparr>) =
   [3000, 3000, 3000, 3000, 3000, 3000]"
  using admin_reconnects_without_ceiling
    [of "[1006, 1006, 1006, 1006, 1006, 1006]" "\<lparr>connectionStatus_adm = ''connected'', timers_adm = []\<rparr>"]
  by simp

subsection \<open>C4: the heartbeat's liveness check\<close>

text \<open>
  C4 does not hold in websocket.js, the one copy with a liveness check. While the
  socket is open, each tick of the ping interval first stores the current time in
  \<^verbatim>\<open>lastPong\<close> and only then tests \<^verbatim>\<open>Date.now() - lastPong > PING_INTERVAL * 2\<close>:
  the difference is 0, so the tick closes nothing, however long ago the last pong
  came. \<^verbatim>\<open>handlePong\<close> does not write \<^verbatim>\<open>lastPong\<close>. And the code the check
  would close with, 1001, is one for which \<^verbatim>\<open>onclose\<close> schedules no reconnection.
\<close>

theorem ping_tick_never_closes_open_socket:
  "ws s = Some OPEN \<Longrightarrow>
     closes (pingTick now s) = closes s \<and>
     ws (pingTick now s) = Some OPEN \<and>
     lastPong (pingTick now s) = now \<and>
     wire (pingTick now s) = wire s @ [ping now] \<and>
     lastPong (handlePong t now s) = lastPong s \<and>
     timers (onclose 1001 s) = timers s"
  by (simp add: pingTick_def sendMessage_def ping_def getprop_def handlePong_def
        PING_INTERVAL_def onclose_def stopPingInterval_def Let_def)

text \<open>
  The theorem at an open connection whose last confirmation dates from time 0, ticked
  at 90000 ms: more than 2 * 30000 ms without a pong, and no close call.
\<close>

theorem ping_tick_never_closes_open_socket_witness:
  "ws opened = Some OPEN \<and> lastPong opened = 0 \<and> 90000 - lastPong opened > 2 * PING_INTERVAL \<and>
   closes (pingTick 90000 opened) = [] \<and>
   ws (pingTick 90000 opened) = Some OPEN \<and>
   lastPong (pingTick 90000 opened) = 90000"
proof -
  have o: "ws opened = Some OPEN"
    by (simp add: opened_def)
  from ping_tick_never_closes_open_socket [OF o, of 90000] o
  show ?thesis by (simp add: opened_def idle_def PING_INTERVAL_def)
qed

subsection \<open>C5: which close codes lead to a reconnection\<close>

text \<open>
  C5, as the code has it. With the attempt counter below the ceiling, the close
  handler of websocket.js schedules no reconnection for the codes 1000 and 1001, and
  schedules one (3000 * 2^attempts ms ahead) for every other code; the close handler
  of part_000 schedules none for code 1000 only, and one for every other code, 1001
  included.
\<close>

theorem close_code_decides_reconnection:
  "reconnectAttempts s < MAX_RECONNECT_ATTEMPTS \<Longrightarrow>
   reconnectAttempts_p0 t < MAX_RECONNECT_ATTEMPTS_p0 \<Longrightarrow>
     timers (onclose code s) =
       (if code = 1000 \<or> code = 1001 then timers s
        else timers s @ [3000 * 2 ^ reconnectAttempts s]) \<and>
     reconnectAttempts (onclose code s) =
       (if code = 1000 \<or> code = 1001 then reconnectAttempts s else reconnectAttempts s + 1) \<and>
     timers_p0 (onclose_p0 code t) =
       (if code = 1000 then timers_p0 t
        else timers_p0 t @ [min (1000 * 2 ^ (reconnectAttempts_p0 t + 1)) 30000]) \<and>
     reconnectAttempts_p0 (onclose_p0 code t) =
       (if code = 1000 then reconnectAttempts_p0 t else reconnectAttempts_p0 t + 1)"
  by (simp add: onclose_def onclose_p0_def attemptReconnection_def attemptReconnect_p0_def
        stopPingInterval_def stopPingInterval_p0_def updateConnectionStatus_p0_def Let_def
        MAX_RECONNECT_ATTEMPTS_def MAX_RECONNECT_ATTEMPTS_p0_def RECONNECT_DELAY_def)

text \<open>The theorem at an abnormal closure (code 1006) of a freshly opened connection.\<close>

theorem close_code_decides_reconnection_witness:
  "reconnectAttempts opened < MAX_RECONNECT_ATTEMPTS \<and>
   reconnectAttempts_p0 opened_p0 < MAX_RECONNECT_ATTEMPTS_p0 \<and>
   timers (onclose 1006 opened) = [3000] \<and>
   timers_p0 (onclose_p0 1006 opened_p0) = [2000] \<and>
   timers_p0 (onclose_p0 1001 opened_p0) = [2000] \<and>
   timers (onclose 1000 opened) = [] \<and>
   timers_p0 (onclose_p0 1000 opened_p0) = []"
proof -
  have a: "reconnectAttempts opened < MAX_RECONNECT_ATTEMPTS"
    and b: "reconnectAttempts_p0 opened_p0 < MAX_RECONNECT_ATTEMPTS_p0"
    by (simp_all add: opened_def idle_def opened_p0_def idle_p0_def
          MAX_RECONNECT_ATTEMPTS_def MAX_RECONNECT_ATTEMPTS_p0_def)
  from close_code_decides_reconnection [OF a b, of 1006]
       close_code_decides_reconnection [OF a b, of 1001]
       close_code_decides_reconnection [OF a b, of 1000] a b
  show ?thesis by (simp add: opened_def idle_def opened_p0_def idle_p0_def)
qed

text \<open>
  C5 as stated fails in websocket.js: an open connection closed with code 1001, the
  counter at 0, gets no reconnection.
\<close>

theorem close_1001_no_reconnection:
  "reconnectAttempts opened = 0 \<and>
   timers (onclose 1001 opened) = [] \<and>
   reconnectAttempts (onclose 1001 opened) = 0"
  by (simp add: onclose_def opened_def idle_def stopPingInterval_def)

subsection \<open>C6: what \<^verbatim>\<open>sendMessage\<close> returns\<close>

text \<open>
  C6, as the code has it. In websocket.js and in part_000 alike, \<^verbatim>\<open>sendMessage\<close>
  returns true exactly when the message is well formed, the socket is open and the
  message can be serialized, and then the message is the one value added to the
  transport's log. In every other case it returns false and the transport sees nothing:
  on malformed input, and also when the message was queued instead. A well-formed
  message that was not sent is appended to the queue when \<^verbatim>\<open>queueIfOffline\<close> is true
  (the default), with \<^verbatim>\<open>_timestamp = now\<close> and \<^verbatim>\<open>_retryCount = 0\<close>; the queue is
  unchanged otherwise.
\<close>

theorem sendMessage_true_iff_sent:
  "fst (sendMessage m q now s) = (\<not> malformed m \<and> ws s = Some OPEN \<and> stringifiable m) \<and>
   wire (snd (sendMessage m q now s)) =
     (if fst (sendMessage m q now s) then wire s @ [m] else wire s) \<and>
   messageQueue (snd (sendMessage m q now s)) =
     (if \<not> malformed m \<and> q \<and> \<not> fst (sendMessage m q now s)
      then messageQueue s @ [enqueue (fields_of m) now] else messageQueue s) \<and>
   fst (sendMessage_p0 m q now t) = (\<not> malformed m \<and> socket_p0 t = Some OPEN \<and> stringifiable m) \<and>
   wire_p0 (snd (sendMessage_p0 m q now t)) =
     (if fst (sendMessage_p0 m q now t) then wire_p0 t @ [m] else wire_p0 t) \<and>
   messageQueue_p0 (snd (sendMessage_p0 m q now t)) =
     (if \<not> malformed m \<and> q \<and> \<not> fst (sendMessage_p0 m q now t)
      then messageQueue_p0 t @ [enqueue (fields_of m) now] else messageQueue_p0 t)"
  by (cases m)
     (simp_all add: sendMessage_def sendMessage_p0_def malformed_def attemptReconnection_def
        attemptReconnect_p0_def updateConnectionStatus_p0_def Let_def)

text \<open>
  The theorem at a chat message: queued and answered false while there is no socket,
  sent and answered true on an open one.
\<close>

theorem sendMessage_true_iff_sent_witness:
  "fst (sendMessage chat True 7 idle) = False \<and>
   messageQueue (snd (sendMessage chat True 7 idle)) = [enqueue (fields_of chat) 7] \<and>
   fst (sendMessage chat True 7 opened) = True \<and>
   wire (snd (sendMessage chat True 7 opened)) = [chat] \<and>
   fst (sendMessage_p0 chat True 7 opened_p0) = True \<and>
   wire_p0 (snd (sendMessage_p0 chat True 7 opened_p0)) = [chat]"
  using sendMessage_true_iff_sent [of chat True 7 idle opened_p0]
        sendMessage_true_iff_sent [of chat True 7 opened opened_p0]
  by (simp add: chat_def malformed_def getprop_def idle_def opened_def opened_p0_def idle_p0_def)

text \<open>
  C6 as stated fails: the chat message is well formed and ends up on the queue, yet
  \<^verbatim>\<open>sendMessage\<close> returns false, in both copies.
\<close>

theorem sendMessage_queued_returns_false:
  "\<not> malformed chat \<and>
   fst (sendMessage chat True 7 idle) = False \<and>
   messageQueue (snd (sendMessage chat True 7 idle)) =
     [\<lparr>body = [(''type'', JStr ''chat''), (''text'', JStr ''hi'')], timestamp = 7, retryCount = 0\<rparr>] \<and>
   fst (sendMessage_p0 chat True 7 idle_p0) = False \<and>
   messageQueue_p0 (snd (sendMessage_p0 chat True 7 idle_p0)) =
     [\<lparr>body = [(''type'', JStr ''chat''), (''text'', JStr ''hi'')], timestamp = 7, retryCount = 0\<rparr>]"
  by (simp add: sendMessage_def sendMessage_p0_def chat_def malformed_def getprop_def idle_def
        idle_p0_def enqueue_def without_meta_def attemptReconnection_def attemptReconnect_p0_def
        updateConnectionStatus_p0_def Let_def MAX_RECONNECT_ATTEMPTS_def MAX_RECONNECT_ATTEMPTS_p0_def)

subsection \<open>C7: a message that cannot be serialized\<close>

text \<open>
  C7, as the code has it. When \<^verbatim>\<open>JSON.stringify\<close> raises on a well-formed message
  (the socket being open, else no serialization is tried), \<^verbatim>\<open>sendMessage\<close> returns
  false at once and nothing reaches the transport; the \<^verbatim>\<open>catch\<close> block, under its
  comment "Queue for retry", appends the message to the outbound queue when
  \<^verbatim>\<open>queueIfOffline\<close> is true (the default). The queue is unchanged only when
  \<^verbatim>\<open>queueIfOffline\<close> is false. Both copies agree.
\<close>

theorem encode_failure_is_queued:
  "\<not> malformed m \<Longrightarrow> \<not> stringifiable m \<Longrightarrow> ws s = Some OPEN \<Longrightarrow> socket_p0 t = Some OPEN \<Longrightarrow>
     fst (sendMessage m q now s) = False \<and>
     wire (snd (sendMessage m q now s)) = wire s \<and>
     messageQueue (snd (sendMessage m q now s)) =
       (if q then messageQueue s @ [enqueue (fields_of m) now] else messageQueue s) \<and>
     fst (sendMessage_p0 m q now t) = False \<and>
     wire_p0 (snd (sendMessage_p0 m q now t)) = wire_p0 t \<and>
     messageQueue_p0 (snd (sendMessage_p0 m q now t)) =
       (if q then messageQueue_p0 t @ [enqueue (fields_of m) now] else messageQueue_p0 t)"
  by (cases m; simp add: sendMessage_def sendMessage_p0_def malformed_def)

text \<open>The theorem at the payment message with a BigInt amount, both flags.\<close>

theorem encode_failure_is_queued_witness:
  "\<not> malformed payment \<and> \<not> stringifiable payment \<and>
   ws opened = Some OPEN \<and> socket_p0 opened_p0 = Some OPEN \<and>
   fst (sendMessage payment True 7 opened) = False \<and>
   messageQueue (snd (sendMessage payment True 7 opened)) = [enqueue (fields_of payment) 7] \<and>
   messageQueue (snd (sendMessage payment False 7 opened)) = [] \<and>
   messageQueue_p0 (snd (sendMessage_p0 payment True 7 opened_p0)) = [enqueue (fields_of payment) 7]"
proof -
  have m: "\<not> malformed payment" and e: "\<not> stringifiable payment"
    by (simp_all add: payment_def malformed_def getprop_def)
  have o: "ws opened = Some OPEN" and p: "socket_p0 opened_p0 = Some OPEN"
    by (simp_all add: opened_def opened_p0_def)
  from encode_failure_is_queued [OF m e o p, of True 7]
       encode_failure_is_queued [OF m e o p, of False 7] m e o p
  show ?thesis by (simp add: opened_def idle_def opened_p0_def idle_p0_def)
qed

text \<open>
  C7 as stated fails: sent on an open socket with the default flag, the payment message
  cannot be serialized and is on the queue afterwards, in both copies.
\<close>

theorem encode_failure_grows_queue:
  "\<not> stringifiable payment \<and>
   messageQueue opened = [] \<and>
   messageQueue (snd (sendMessage payment True 7 opened)) =
     [\<lparr>body = [(''type'', JStr ''payment''), (''amount'', JBigInt 10)],
       timestamp = 7, retryCount = 0\<rparr>] \<and>
   messageQueue_p0 opened_p0 = [] \<and>
   messageQueue_p0 (snd (sendMessage_p0 payment True 7 opened_p0)) =
     [\<lparr>body = [(''type'', JStr ''payment''), (''amount'', JBigInt 10)],
       timestamp = 7, retryCount = 0\<rparr>]"
  by (simp add: sendMessage_def sendMessage_p0_def payment_def getprop_def opened_def idle_def
        opened_p0_def idle_p0_def enqueue_def without_meta_def)

subsection \<open>C8: \<^verbatim>\<open>disconnect\<close>\<close>

text \<open>
  C8, as the code has it. In both copies \<^verbatim>\<open>disconnect()\<close> clears the heartbeat
  timer, calls \<^verbatim>\<open>close(1000, ...)\<close> on the socket if there is one and forgets the
  socket, and leaves the outbound queue as it is. It also leaves the pending reconnect
  timers as they are: the module keeps no handle of them. A second \<^verbatim>\<open>disconnect()\<close>
  right after the first finds no socket and adds no close call, so the two calls make
  one normal closure. The close event that follows, with code 1000, schedules no
  reconnection.
\<close>

theorem disconnect_effects:
  "pingInterval (disconnect s) = False \<and>
   ws (disconnect s) = None \<and>
   closes (disconnect s) =
     (if ws s = None then closes s else closes s @ [(1000, ''User initiated disconnect'')]) \<and>
   messageQueue (disconnect s) = messageQueue s \<and>
   timers (disconnect s) = timers s \<and>
   closes (disconnect (disconnect s)) = closes (disconnect s) \<and>
   timers (onclose 1000 (disconnect s)) = timers s \<and>
   pingInterval_p0 (disconnect_p0 t) = False \<and>
   socket_p0 (disconnect_p0 t) = None \<and>
   closes_p0 (disconnect_p0 t) =
     (if socket_p0 t = None then closes_p0 t
      else closes_p0 t @ [(1000, ''User initiated disconnect'')]) \<and>
   messageQueue_p0 (disconnect_p0 t) = messageQueue_p0 t \<and>
   timers_p0 (disconnect_p0 t) = timers_p0 t \<and>
   closes_p0 (disconnect_p0 (disconnect_p0 t)) = closes_p0 (disconnect_p0 t) \<and>
   timers_p0 (onclose_p0 1000 (disconnect_p0 t)) = timers_p0 t"
  by (cases "ws s"; cases "socket_p0 t";
      simp add: disconnect_def disconnect_p0_def stopPingInterval_def stopPingInterval_p0_def
        onclose_def onclose_p0_def updateConnectionStatus_p0_def Let_def)

text \<open>The theorem at an open connection: one close call with code 1000, also after two calls.\<close>

theorem disconnect_effects_witness:
  "closes (disconnect opened) = [(1000, ''User initiated disconnect'')] \<and>
   closes (disconnect (disconnect opened)) = [(1000, ''User initiated disconnect'')] \<and>
   pingInterval (disconnect opened) = False \<and>
   closes_p0 (disconnect_p0 (disconnect_p0 opened_p0)) = [(1000, ''User initiated disconnect'')]"
  using disconnect_effects [of opened opened_p0]
  by (simp add: opened_def idle_def opened_p0_def idle_p0_def)

text \<open>
  C8 as stated fails. After an abnormal closure (code 1006) of an open connection a
  reconnect is pending; \<^verbatim>\<open>disconnect()\<close> leaves it pending, in both copies. And in
  websocket.js a send after \<^verbatim>\<open>disconnect()\<close> schedules a reconnection, the counter
  having been reset to 0.
\<close>

theorem disconnect_keeps_reconnect_timer:
  "timers (onclose 1006 opened) = [3000] \<and>
   timers (disconnect (onclose 1006 opened)) = [3000] \<and>
   timers_p0 (onclose_p0 1006 opened_p0) = [2000] \<and>
   timers_p0 (disconnect_p0 (onclose_p0 1006 opened_p0)) = [2000] \<and>
   timers (disconnect opened) = [] \<and>
   timers (snd (sendMessage chat True 7 (disconnect opened))) = [3000]"
  by (simp add: disconnect_def disconnect_p0_def onclose_def onclose_p0_def opened_def idle_def
        opened_p0_def idle_p0_def stopPingInterval_def stopPingInterval_p0_def
        attemptReconnection_def attemptReconnect_p0_def updateConnectionStatus_p0_def Let_def
        MAX_RECONNECT_ATTEMPTS_def MAX_RECONNECT_ATTEMPTS_p0_def RECONNECT_DELAY_def
        sendMessage_def chat_def getprop_def)

subsection \<open>C9: listeners that raise\<close>








text \<open>
  In part_000 the names the table inherits cannot be subscribed to, and a dispatch
  under such a name would raise; the module itself dispatches under other names only.
\<close>

lemma inherited_names_raise:
  "addEventListener_p0 eventListeners_p0 ''constructor'' c = Throw eventListeners_p0"
  "triggerEvent_p0 does ''toString'' data \<lparr>eventListeners = eventListeners_p0, world = w\<rparr> =
     Throw \<lparr>eventListeners = eventListeners_p0, world = w\<rparr>"
  by (simp_all add: addEventListener_p0_def triggerEvent_p0_def lookup_p0_def
        eventListeners_p0_def object_prototype_keys_def)




subsection \<open>C10: a send without an open connection\<close>

text \<open>
  C10, as the code has it. For a well-formed message and no open socket,
  \<^verbatim>\<open>sendMessage\<close> returns false, appends the message to the queue when
  \<^verbatim>\<open>queueIfOffline\<close> is true, and starts a reconnection under a condition that
  differs between the copies. websocket.js calls \<^verbatim>\<open>attemptReconnection\<close> when
  \<^verbatim>\<open>connectionStatus.connected\<close> is false and \<^verbatim>\<open>reconnectAttempts\<close> is 0: the
  counter becomes 1 and a reconnect is scheduled after 3000 ms. part_000 calls
  \<^verbatim>\<open>attemptReconnect\<close> when \<^verbatim>\<open>connectionStatus\<close> is not \<^verbatim>\<open>'connecting'\<close>, and
  that schedules a reconnect when the counter is below 5. Otherwise the counter and
  the timers are as before.
\<close>

theorem send_offline_starts_reconnection:
  "\<not> malformed m \<Longrightarrow> ws s \<noteq> Some OPEN \<Longrightarrow> socket_p0 t \<noteq> Some OPEN \<Longrightarrow>
     fst (sendMessage m q now s) = False \<and>
     messageQueue (snd (sendMessage m q now s)) =
       (if q then messageQueue s @ [enqueue (fields_of m) now] else messageQueue s) \<and>
     reconnectAttempts (snd (sendMessage m q now s)) =
       (if \<not> connected s \<and> reconnectAttempts s = 0 then 1 else reconnectAttempts s) \<and>
     timers (snd (sendMessage m q now s)) =
       (if \<not> connected s \<and> reconnectAttempts s = 0 then timers s @ [3000] else timers s) \<and>
     fst (sendMessage_p0 m q now t) = False \<and>
     messageQueue_p0 (snd (sendMessage_p0 m q now t)) =
       (if q then messageQueue_p0 t @ [enqueue (fields_of m) now] else messageQueue_p0 t) \<and>
     reconnectAttempts_p0 (snd (sendMessage_p0 m q now t)) =
       (if connectionStatus_p0 t \<noteq> ''connecting'' \<and> reconnectAttempts_p0 t < 5
        then reconnectAttempts_p0 t + 1 else reconnectAttempts_p0 t) \<and>
     timers_p0 (snd (sendMessage_p0 m q now t)) =
       (if connectionStatus_p0 t \<noteq> ''connecting'' \<and> reconnectAttempts_p0 t < 5
        then timers_p0 t @ [min (1000 * 2 ^ (reconnectAttempts_p0 t + 1)) 30000]
        else timers_p0 t)"
  by (cases m; simp add: sendMessage_def sendMessage_p0_def malformed_def
        attemptReconnection_def attemptReconnect_p0_def updateConnectionStatus_p0_def Let_def
        MAX_RECONNECT_ATTEMPTS_def MAX_RECONNECT_ATTEMPTS_p0_def RECONNECT_DELAY_def)

text \<open>The theorem at the chat message, sent before any connection exists.\<close>

theorem send_offline_starts_reconnection_witness:
  "\<not> malformed chat \<and> ws idle \<noteq> Some OPEN \<and> socket_p0 idle_p0 \<noteq> Some OPEN \<and>
   messageQueue (snd (sendMessage chat True 7 idle)) = [enqueue (fields_of chat) 7] \<and>
   reconnectAttempts (snd (sendMessage chat True 7 idle)) = 1 \<and>
   timers (snd (sendMessage chat True 7 idle)) = [3000] \<and>
   reconnectAttempts_p0 (snd (sendMessage_p0 chat True 7 idle_p0)) = 1 \<and>
   timers_p0 (snd (sendMessage_p0 chat True 7 idle_p0)) = [2000]"
proof -
  have m: "\<not> malformed chat"
    by (simp add: chat_def malformed_def getprop_def)
  have o: "ws idle \<noteq> Some OPEN" and p: "socket_p0 idle_p0 \<noteq> Some OPEN"
    by (simp_all add: idle_def idle_p0_def)
  from send_offline_starts_reconnection [OF m o p, of True 7] m o p
  show ?thesis by (simp add: idle_def idle_p0_def)
qed

text \<open>
  C10 as stated fails, the attempt counter being 0 in both cases. In websocket.js the
  socket is closing (\<^verbatim>\<open>close\<close> was called on it, or the server began the closing
  handshake) while \<^verbatim>\<open>connectionStatus.connected\<close> is still true, \<^verbatim>\<open>onclose\<close> not
  having run yet. In part_000 the first connection is being established: the socket is
  connecting and the status is \<^verbatim>\<open>'connecting'\<close>. The message is queued and no
  reconnection is scheduled.
\<close>

theorem send_offline_without_reconnection:
  "reconnectAttempts (opened\<lparr>ws := Some CLOSING\<rparr>) = 0 \<and>
   messageQueue (snd (sendMessage chat True 7 (opened\<lparr>ws := Some CLOSING\<rparr>))) =
     [enqueue (fields_of chat) 7] \<and>
   timers (snd (sendMessage chat True 7 (opened\<lparr>ws := Some CLOSING\<rparr>))) = [] \<and>
   reconnectAttempts (snd (sendMessage chat True 7 (opened\<lparr>ws := Some CLOSING\<rparr>))) = 0 \<and>
   reconnectAttempts_p0
     (idle_p0\<lparr>socket_p0 := Some CONNECTING, connectionStatus_p0 := ''connecting''\<rparr>) = 0 \<and>
   messageQueue_p0 (snd (sendMessage_p0 chat True 7
     (idle_p0\<lparr>socket_p0 := Some CONNECTING, connectionStatus_p0 := ''connecting''\<rparr>))) =
     [enqueue (fields_of chat) 7] \<and>
   timers_p0 (snd (sendMessage_p0 chat True 7
     (idle_p0\<lparr>socket_p0 := Some CONNECTING, connectionStatus_p0 := ''connecting''\<rparr>))) = [] \<and>
   reconnectAttempts_p0 (snd (sendMessage_p0 chat True 7
     (idle_p0\<lparr>socket_p0 := Some CONNECTING, connectionStatus_p0 := ''connecting''\<rparr>))) = 0"
  by (simp add: sendMessage_def sendMessage_p0_def chat_def getprop_def opened_def idle_def
        idle_p0_def)

end
